theory Spec2Isabelle
  imports Complex_Main
begin

section \<open>JavaScript values\<close>

text \<open>
  Every value the server handles beyond plain strings is a result of \<open>JSON.parse\<close>
  (the model's reply, the request body). Numbers are the values a double holds, kept as
  rationals; only their truthiness (non-zero) and their printed form are ever used.
  A JavaScript \<open>undefined\<close> is \<open>None\<close> of an option.
\<close>

datatype json =
    JNull
  | JBool bool
  | JNum rat
  | JStr string
  | JArr "json list"
  | JObj "(string \<times> json) list"

text \<open>Truthiness of a value, as \<open>!x\<close>, \<open>x || y\<close>, \<open>x && y\<close> and \<open>if (x)\<close> test it.\<close>

fun truthy :: "json \<Rightarrow> bool" where
  "truthy JNull = False"
| "truthy (JBool b) = b"
| "truthy (JNum n) = (n \<noteq> 0)"
| "truthy (JStr s) = (s \<noteq> [])"
| "truthy (JArr xs) = True"
| "truthy (JObj kvs) = True"

fun truthy_opt :: "json option \<Rightarrow> bool" where
  "truthy_opt None = False"
| "truthy_opt (Some v) = truthy v"

text \<open>
  Reading a property \<open>v.k\<close> of a value that is neither \<open>null\<close> nor \<open>undefined\<close>, for
  the names the server reads (\<open>isError\<close>, \<open>error\<close>, \<open>productName\<close>, \<open>ingredients\<close>,
  \<open>nutritionFacts\<close>, \<open>calories\<close>): none of them is a built-in property of a string,
  number, boolean or array, so only an object can have one. When a key is repeated
  \<open>JSON.parse\<close> keeps the last occurrence. Reading a property of \<open>null\<close> throws; the
  callers test for \<open>JNull\<close> before they use \<open>prop_read\<close>.
\<close>

fun prop_read :: "json \<Rightarrow> string \<Rightarrow> json option" where
  "prop_read (JObj kvs) k = map_of (rev kvs) k"
| "prop_read _ k = None"

section \<open>The session store (sessionManager)\<close>

text \<open>
  \<open>storeAnalysis\<close> puts the record \<open>{analysis, timestamp: Date.now()}\<close> into the
  cache under the session identifier.
\<close>

record session =
  analysis :: json
  timestamp :: nat

text \<open>
  The cache is an instance of the \<open>node-cache\<close> package, built with
  \<open>stdTTL: 15 * 60\<close> seconds, \<open>checkperiod: 5 * 60\<close> seconds and
  \<open>useClones: false\<close>. The package is a dependency and not part of the sources, so its
  three operations are modelled below from the specification of the session store.
  Times are milliseconds, as \<open>Date.now()\<close> gives them.
\<close>

record entry =
  val :: session
  expires :: nat

type_synonym cache = "string \<Rightarrow> entry option"

definition stdTTL :: nat where
  "stdTTL = 15 * 60"

definition checkperiod :: nat where
  "checkperiod = 5 * 60"

definition ttl_ms :: nat where
  "ttl_ms = stdTTL * 1000"

text \<open>
  Modelled from the spec: \<open>NodeCache.set\<close> of the node-cache package. The spec's
  \<open>create\<close> stores the payload with the time of creation; every record lives for the
  fixed TTL counted from that time. With \<open>useClones: false\<close> the value is kept as it
  is given.
\<close>

definition cache_set :: "string \<Rightarrow> session \<Rightarrow> nat \<Rightarrow> cache \<Rightarrow> cache" where
  "cache_set k x now c = c(k \<mapsto> \<lparr>val = x, expires = now + ttl_ms\<rparr>)"

text \<open>
  Modelled from the spec: \<open>NodeCache.get\<close> of the node-cache package. The spec's
  \<open>get\<close> returns the stored payload if the identifier exists and has not expired and
  signals not-found otherwise; a read does not extend the expiry; an expired record may be
  evicted lazily on read. A record is retrievable before its TTL has elapsed and not after;
  at the very millisecond of expiry, which the spec leaves open, the record still counts
  as live.
\<close>

definition cache_get :: "string \<Rightarrow> nat \<Rightarrow> cache \<Rightarrow> session option \<times> cache" where
  "cache_get k now c =
     (case c k of
        None \<Rightarrow> (None, c)
      | Some e \<Rightarrow> if expires e < now then (None, c(k := None)) else (Some (val e), c))"

text \<open>
  Modelled from the spec: the periodic sweep of the node-cache package (every
  \<open>checkperiod\<close> seconds), which evicts every record whose TTL has elapsed.
\<close>

definition cache_sweep :: "nat \<Rightarrow> cache \<Rightarrow> cache" where
  "cache_sweep now c =
     (\<lambda>k. case c k of
             None \<Rightarrow> None
           | Some e \<Rightarrow> if expires e < now then None else Some e)"

text \<open>
  The two functions of sessionManager that the server uses. Both clock readings of one
  \<open>storeAnalysis\<close> (the record's \<open>timestamp\<close> and the cache's own) are the one
  instant \<open>now\<close>.
\<close>

definition storeAnalysis :: "string \<Rightarrow> json \<Rightarrow> nat \<Rightarrow> cache \<Rightarrow> cache" where
  "storeAnalysis sessionId a now c =
     cache_set sessionId \<lparr>analysis = a, timestamp = now\<rparr> now c"

definition getAnalysis :: "string \<Rightarrow> nat \<Rightarrow> cache \<Rightarrow> session option \<times> cache" where
  "getAnalysis sessionId now c = cache_get sessionId now c"

text \<open>
  What can happen to the store between two moments: a session is stored, some session is
  read, or the periodic sweep runs. Each operation carries the time at which it runs.
\<close>

datatype store_op =
    Store string json nat
  | Get string nat
  | Sweep nat

fun op_time :: "store_op \<Rightarrow> nat" where
  "op_time (Store k a t) = t"
| "op_time (Get k t) = t"
| "op_time (Sweep t) = t"

fun stores :: "string \<Rightarrow> store_op \<Rightarrow> bool" where
  "stores k (Store k' a t) = (k = k')"
| "stores k _ = False"

fun apply_op :: "store_op \<Rightarrow> cache \<Rightarrow> cache" where
  "apply_op (Store k a t) c = storeAnalysis k a t c"
| "apply_op (Get k t) c = snd (getAnalysis k t c)"
| "apply_op (Sweep t) c = cache_sweep t c"

fun run_ops :: "store_op list \<Rightarrow> cache \<Rightarrow> cache" where
  "run_ops [] c = c"
| "run_ops (x # xs) c = run_ops xs (apply_op x c)"

section \<open>Strings\<close>

text \<open>
  A string is the list of its characters. The string methods the server calls are
  modelled on ASCII text: \<open>trim\<close> removes the ASCII white space (tab, line feed,
  vertical tab, form feed, carriage return, space) and \<open>toLowerCase\<close> maps \<open>A\<close> to
  \<open>Z\<close>, as the JavaScript methods do on such text.
\<close>

definition startsWith :: "string \<Rightarrow> string \<Rightarrow> bool" where
  "startsWith s p = (take (length p) s = p)"

definition endsWith :: "string \<Rightarrow> string \<Rightarrow> bool" where
  "endsWith s p = (length p \<le> length s \<and> drop (length s - length p) s = p)"

definition is_space :: "char \<Rightarrow> bool" where
  "is_space ch = (ch \<in> {CHR 0x09, CHR 0x0A, CHR 0x0B, CHR 0x0C, CHR 0x0D, CHR 0x20})"

definition trim :: "string \<Rightarrow> string" where
  "trim s = rev (dropWhile is_space (rev (dropWhile is_space s)))"

definition lower_char :: "char \<Rightarrow> char" where
  "lower_char ch =
     (let n = (of_char ch :: nat)
      in if of_char CHR ''A'' \<le> n \<and> n \<le> of_char CHR ''Z'' then char_of (n + 32) else ch)"

definition toLowerCase :: "string \<Rightarrow> string" where
  "toLowerCase s = map lower_char s"

text \<open>
  \<open>content.replace(/^<fence>\n|\n```$/g, '')\<close>: the opening fence with its line feed is
  removed where the text starts with it, and a line feed followed by the closing fence is
  removed where what is left ends with it (the two matches of the global pattern cannot
  overlap).
\<close>

definition fence :: string where
  "fence = ''```''"

definition replace_fence :: "string \<Rightarrow> string \<Rightarrow> string" where
  "replace_fence opening s =
     (let s1 = (if startsWith s (opening @ [CHR 0x0A])
                then drop (length (opening @ [CHR 0x0A])) s else s);
          closing = CHR 0x0A # fence
      in if endsWith s1 closing then take (length s1 - length closing) s1 else s1)"

text \<open>The removal of markdown code block markers at the head of the inner \<open>try\<close>.\<close>

definition strip_fence :: "string \<Rightarrow> string" where
  "strip_fence content =
     (if startsWith content (fence @ ''json'') then trim (replace_fence (fence @ ''json'') content)
      else if startsWith content fence then trim (replace_fence fence content)
      else content)"

text \<open>
  \<open>ToString\<close> of a parsed value, as a template literal, \<open>Array.prototype.join\<close> and
  \<open>String.prototype.replace\<close> apply it. The printed form of a number is a parameter
  \<open>numstr\<close>. An array prints as its elements joined by commas, \<open>null\<close> elements as the
  empty string. An object prints as \<open>[object Object]\<close>, unless it has a key
  \<open>toString\<close> of its own: that value is not callable, and the conversion throws a
  TypeError (\<open>None\<close>).
\<close>

fun intercalate :: "string \<Rightarrow> string list \<Rightarrow> string" where
  "intercalate sep [] = []"
| "intercalate sep [x] = x"
| "intercalate sep (x # y # ys) = x @ sep @ intercalate sep (y # ys)"

fun sequence :: "'a option list \<Rightarrow> 'a list option" where
  "sequence [] = Some []"
| "sequence (None # xs) = None"
| "sequence (Some x # xs) = (case sequence xs of None \<Rightarrow> None | Some ys \<Rightarrow> Some (x # ys))"

fun to_string :: "(rat \<Rightarrow> string) \<Rightarrow> json \<Rightarrow> string option" where
  "to_string numstr JNull = Some ''null''"
| "to_string numstr (JBool b) = Some (if b then ''true'' else ''false'')"
| "to_string numstr (JNum n) = Some (numstr n)"
| "to_string numstr (JStr s) = Some s"
| "to_string numstr (JArr xs) =
     map_option (intercalate '','')
       (sequence (map (\<lambda>x. if x = JNull then Some [] else to_string numstr x) xs))"
| "to_string numstr (JObj kvs) =
     (if ''toString'' \<in> fst ` set kvs then None else Some ''[object Object]'')"

text \<open>\<open>xs.join(sep)\<close> on an array \<open>xs\<close>.\<close>

definition join :: "(rat \<Rightarrow> string) \<Rightarrow> string \<Rightarrow> json list \<Rightarrow> string option" where
  "join numstr sep xs =
     map_option (intercalate sep)
       (sequence (map (\<lambda>x. if x = JNull then Some [] else to_string numstr x) xs))"

text \<open>\<open>x || d\<close> where \<open>x\<close> may be \<open>undefined\<close>.\<close>

fun or_else :: "json option \<Rightarrow> json \<Rightarrow> json" where
  "or_else None d = d"
| "or_else (Some v) d = (if truthy v then v else d)"

section \<open>The gateways (aiService, ttsService)\<close>

text \<open>
  What an outbound call to the model does is an input of the functions below: it throws
  (rejects) with a message, or it returns. Of the object that \<open>chat.completions.create\<close>
  returns the server reads whether \<open>choices\<close> is a non-empty array and the
  \<open>message.content\<close> of its first element (\<open>None\<close> when the message or its content is
  missing or \<open>null\<close>).
\<close>

datatype 'a outcome = Throws string | Returns 'a

datatype completion = NoChoices | FirstContent "string option"

text \<open>
  The object \<open>analyzeImage\<close> returns: \<open>{success: true, analysis}\<close> or
  \<open>{success: false, error, details}\<close>. (The \<open>stack\<close> of the second, which no caller
  reads, is left out.)
\<close>

datatype analysis_result = AnalysisOk json | AnalysisFailed json string

text \<open>The result of the outer \<open>catch\<close> of \<open>analyzeImage\<close>, for an error with message \<open>m\<close>.\<close>

definition caught :: "string \<Rightarrow> analysis_result" where
  "caught m = AnalysisFailed (JStr ''Failed to analyze image'') m"

text \<open>
  The first part of \<open>analyzeImage\<close>: the checks of the arguments, the call and the checks
  of the shape of its result. \<open>Inl m\<close> is an error thrown with message \<open>m\<close>, \<open>Inr\<close> the
  text of the model's reply.
\<close>

definition fetch_content :: "string \<Rightarrow> string \<Rightarrow> completion outcome \<Rightarrow> string + string" where
  "fetch_content imageBase64 mimeType reply =
     (if imageBase64 = [] then
        Inl ''Invalid image data: base64 string is empty or not a string''
      else if mimeType = [] \<or> \<not> startsWith mimeType ''image/'' then
        Inl (''Invalid MIME type: '' @ mimeType)
      else
        (case reply of
           Throws m \<Rightarrow> Inl m
         | Returns NoChoices \<Rightarrow> Inl ''No choices in API response''
         | Returns (FirstContent None) \<Rightarrow> Inl ''Invalid message format in API response''
         | Returns (FirstContent (Some content)) \<Rightarrow>
             if content = [] then Inl ''Invalid message format in API response''
             else Inr content))"

text \<open>
  The message of the TypeError that reading \<open>analysis.isError\<close> throws when the reply
  parses to \<open>null\<close>.
\<close>

definition null_read_message :: string where
  "null_read_message = ''Cannot read properties of null (reading '' @ [CHR 0x27] @ ''isError'' @ [CHR 0x27] @ '')''"

text \<open>
  The inner \<open>try\<close> of \<open>analyzeImage\<close>. \<open>JSON.parse\<close> is the parameter \<open>parse\<close>:
  \<open>Inl m\<close> is a SyntaxError with message \<open>m\<close>, \<open>Inr\<close> the parsed value.
\<close>

definition parse_analysis :: "(string \<Rightarrow> string + json) \<Rightarrow> string \<Rightarrow> analysis_result" where
  "parse_analysis parse content =
     (case parse (strip_fence content) of
        Inl m \<Rightarrow> caught (''Failed to parse API response: '' @ m)
      | Inr a \<Rightarrow>
          if a = JNull then caught (''Failed to parse API response: '' @ null_read_message)
          else if truthy_opt (prop_read a ''isError'') \<or> truthy_opt (prop_read a ''error'') then
            AnalysisFailed
              (or_else (prop_read a ''error'') (JStr ''Failed to analyze the food label''))
              ''The model could not process the image as a food label''
          else AnalysisOk a)"

definition analyzeImage ::
  "(string \<Rightarrow> string + json) \<Rightarrow> string \<Rightarrow> string \<Rightarrow> completion outcome \<Rightarrow> analysis_result" where
  "analyzeImage parse imageBase64 mimeType reply =
     (case fetch_content imageBase64 mimeType reply of
        Inl m \<Rightarrow> caught m
      | Inr content \<Rightarrow> parse_analysis parse content)"

text \<open>
  The object \<open>generateSummary\<close> and \<open>handleFollowUp\<close> return: \<open>{success: true}\<close> with
  the text (\<open>summary\<close> or \<open>response\<close>), or \<open>{success: false, error}\<close>. (Their
  \<open>details\<close>, which no caller reads, is left out.) Whatever goes wrong inside their
  \<open>try\<close>, a rejected call or a reply without \<open>choices[0].message.content\<close>, ends in
  the \<open>catch\<close>. The analysis goes into the prompt only: what the call does is the input
  \<open>reply\<close>.
\<close>

datatype text_result = TextOk string | TextFailed string

fun generateSummary :: "json \<Rightarrow> completion outcome \<Rightarrow> text_result" where
  "generateSummary a (Returns (FirstContent (Some content))) = TextOk (trim content)"
| "generateSummary a _ = TextFailed ''Failed to generate summary''"

text \<open>
  \<open>handleFollowUp\<close> puts the question into the prompt with \<open>String.prototype.replace\<close>,
  which converts it to a string first; where that conversion throws, no call is made.
\<close>

definition handleFollowUp ::
  "(rat \<Rightarrow> string) \<Rightarrow> json \<Rightarrow> json \<Rightarrow> completion outcome \<Rightarrow> text_result" where
  "handleFollowUp numstr a question reply =
     (case to_string numstr question of
        None \<Rightarrow> TextFailed ''Failed to process follow-up question''
      | Some q \<Rightarrow>
          (case reply of
             Returns (FirstContent (Some content)) \<Rightarrow> TextOk (trim content)
           | _ \<Rightarrow> TextFailed ''Failed to process follow-up question''))"

text \<open>
  What a request handler does besides answering: the functions of the other modules it
  invokes, and the outbound speech request \<open>openai.audio.speech.create\<close> with its
  \<open>voice\<close> and \<open>input\<close>.
\<close>

datatype event =
    CallAnalyzeImage
  | CallStoreAnalysis string json
  | CallGetAnalysis string
  | CallGenerateSummary json
  | CallHandleFollowUp json json
  | SpeechCreate string json

text \<open>
  \<open>generateSpeech\<close> of ttsService, the one the server imports. It returns the audio or
  throws; the outbound request, if it comes to one, is the event. A \<open>voice\<close> that is not
  a string has no \<open>toLowerCase\<close>: the TypeError is thrown while the request is built,
  and caught.
\<close>

definition generateSpeech :: "json \<Rightarrow> json \<Rightarrow> string outcome \<Rightarrow> event list \<times> string outcome" where
  "generateSpeech text voice reply =
     (if \<not> truthy text then ([], Throws ''No text provided for TTS'')
      else
        (case voice of
           JStr v \<Rightarrow>
             ([SpeechCreate (toLowerCase v) text],
              case reply of
                Returns audio \<Rightarrow> Returns audio
              | Throws m \<Rightarrow> Throws ''Failed to generate speech'')
         | _ \<Rightarrow> ([], Throws ''Failed to generate speech'')))"

text \<open>
  \<open>generateSpeech\<close> of aiService, which the server does not import: it checks the voice
  against the list of valid voices before the outbound request.
\<close>

definition validVoices :: "string list" where
  "validVoices = [''alloy'', ''echo'', ''fable'', ''onyx'', ''nova'', ''shimmer'']"

definition invalid_voice :: "string outcome" where
  "invalid_voice =
     Throws (''Failed to generate speech: Invalid voice. Must be one of: ''
              @ intercalate '', '' validVoices)"

definition generateSpeech_aiService ::
  "json \<Rightarrow> json \<Rightarrow> string outcome \<Rightarrow> event list \<times> string outcome" where
  "generateSpeech_aiService text voice reply =
     (case voice of
        JStr v \<Rightarrow>
          if v \<notin> set validVoices then ([], invalid_voice)
          else
            ([SpeechCreate v text],
             case reply of
               Returns audio \<Rightarrow> Returns audio
             | Throws m \<Rightarrow> Throws (''Failed to generate speech: '' @ m))
      | _ \<Rightarrow> ([], invalid_voice))"

section \<open>The request handlers (server)\<close>

text \<open>
  A handler answers with a status and a body, which is a JSON object (\<open>res.json\<close>) or
  the audio (\<open>res.send\<close>). Besides the response, a handler leaves the session store as
  it is after the request, and the events of the request in their order.
\<close>

datatype body = JsonBody json | AudioBody string

record response =
  status :: nat
  body :: body

record handled =
  response :: response
  store :: cache
  events :: "event list"

text \<open>The fields of a JSON body; a response that is not JSON has none.\<close>

fun body_field :: "body \<Rightarrow> string \<Rightarrow> json option" where
  "body_field (JsonBody j) k = prop_read j k"
| "body_field (AudioBody a) k = None"

text \<open>The file of the request as multer leaves it: its bytes in base64 and its MIME type.\<close>

record upload =
  base64 :: string
  mimetype :: string

text \<open>
  The summary built from the analysis when \<open>generateSummary\<close> gives none. \<open>None\<close> is
  a TypeError thrown on the way: \<open>ingredients\<close> is neither missing, \<open>null\<close> nor an
  array and so has no \<open>join\<close>, or a value that is printed has no printed form.
\<close>

definition ingredients_text :: "(rat \<Rightarrow> string) \<Rightarrow> json \<Rightarrow> string option" where
  "ingredients_text numstr a =
     (case prop_read a ''ingredients'' of
        None \<Rightarrow> Some ''various ingredients''
      | Some JNull \<Rightarrow> Some ''various ingredients''
      | Some (JArr xs) \<Rightarrow>
          map_option (\<lambda>s. if s = [] then ''various ingredients'' else s) (join numstr '', '' xs)
      | Some _ \<Rightarrow> None)"

definition calories_of :: "json \<Rightarrow> json option" where
  "calories_of a =
     (case prop_read a ''nutritionFacts'' of
        None \<Rightarrow> None
      | Some JNull \<Rightarrow> None
      | Some facts \<Rightarrow> prop_read facts ''calories'')"

definition fallback_summary :: "(rat \<Rightarrow> string) \<Rightarrow> json \<Rightarrow> string option" where
  "fallback_summary numstr a =
     (if a = JNull then None
      else
        (case ingredients_text numstr a of
           None \<Rightarrow> None
         | Some ingredients \<Rightarrow>
             (case to_string numstr (or_else (prop_read a ''productName'') (JStr ''This product'')) of
                None \<Rightarrow> None
              | Some product \<Rightarrow>
                  (case calories_of a of
                     None \<Rightarrow> Some (product @ '' contains '' @ ingredients @ ''. '')
                   | Some calories \<Rightarrow>
                       if truthy calories then
                         map_option
                           (\<lambda>c. product @ '' contains '' @ ingredients @ ''. ''
                                 @ ''It has approximately '' @ c @ '' calories per serving.'')
                           (to_string numstr calories)
                       else Some (product @ '' contains '' @ ingredients @ ''. '')))))"

text \<open>
  The \<open>summary\<close> of the response of \<open>/api/analyze\<close>, from the result of
  \<open>generateSummary\<close>: its text when it succeeded with a non-empty one, the summary
  built from the analysis otherwise, and the fixed sentence of the \<open>catch\<close> when
  building it threw.
\<close>

definition first_summary :: "(rat \<Rightarrow> string) \<Rightarrow> json \<Rightarrow> text_result \<Rightarrow> string" where
  "first_summary numstr a r =
     (let fallback =
            (case fallback_summary numstr a of
               None \<Rightarrow> ''Analysis complete. Ask me anything about this product.''
             | Some s \<Rightarrow> s)
      in case r of
           TextOk s \<Rightarrow> if s \<noteq> [] then s else fallback
         | TextFailed e \<Rightarrow> fallback)"

text \<open>
  \<open>POST /api/analyze\<close>. Inputs besides the request's file: what the two outbound calls
  do (\<open>vision\<close> for \<open>analyzeImage\<close>, \<open>chat\<close> for \<open>generateSummary\<close>), the identifier
  \<open>uuidv4()\<close> gives, the clock and the store.
\<close>

definition api_analyze ::
  "(string \<Rightarrow> string + json) \<Rightarrow> (rat \<Rightarrow> string) \<Rightarrow> upload option \<Rightarrow> completion outcome \<Rightarrow>
     string \<Rightarrow> completion outcome \<Rightarrow> nat \<Rightarrow> cache \<Rightarrow> handled" where
  "api_analyze parse numstr file vision uuid chat now c =
     (case file of
        None \<Rightarrow>
          \<lparr>response = \<lparr>status = 400, body = JsonBody (JObj
               [(''success'', JBool False),
                (''error'', JStr ''No file uploaded or unsupported file type'')])\<rparr>,
           store = c, events = []\<rparr>
      | Some f \<Rightarrow>
          (case analyzeImage parse (base64 f) (mimetype f) vision of
             AnalysisFailed e d \<Rightarrow>
               \<lparr>response = \<lparr>status = 500, body = JsonBody (JObj
                    [(''success'', JBool False), (''error'', e), (''details'', JStr d)])\<rparr>,
                store = c, events = [CallAnalyzeImage]\<rparr>
           | AnalysisOk a \<Rightarrow>
               \<lparr>response = \<lparr>status = 200, body = JsonBody (JObj
                    [(''success'', JBool True),
                     (''sessionId'', JStr uuid),
                     (''summary'', JStr (first_summary numstr a (generateSummary a chat))),
                     (''hasAnalysis'', JBool True),
                     (''analysis'', a)])\<rparr>,
                store = storeAnalysis uuid a now c,
                events = [CallAnalyzeImage, CallStoreAnalysis uuid a, CallGenerateSummary a]\<rparr>))"

text \<open>
  The middleware \<open>validateSession\<close>: \<open>Inl\<close> is its own response, \<open>Inr\<close> the session
  identifier it passes on. The header is \<open>None\<close> when the request has none.
\<close>

definition validateSession :: "string option \<Rightarrow> response + string" where
  "validateSession header =
     (case header of
        Some sessionId \<Rightarrow>
          if sessionId \<noteq> [] then Inr sessionId
          else Inl \<lparr>status = 400, body = JsonBody (JObj
                 [(''success'', JBool False),
                  (''error'', JStr ''Session ID is required in X-Session-ID header'')])\<rparr>
      | None \<Rightarrow>
          Inl \<lparr>status = 400, body = JsonBody (JObj
            [(''success'', JBool False),
             (''error'', JStr ''Session ID is required in X-Session-ID header'')])\<rparr>)"

text \<open>The response of the \<open>catch\<close> of \<open>/api/chat\<close>, for an error with message \<open>m\<close>.\<close>

definition chat_failed :: "string \<Rightarrow> response" where
  "chat_failed m =
     \<lparr>status = 500, body = JsonBody (JObj
        [(''success'', JBool False),
         (''error'', JStr ''Failed to process request''),
         (''details'', JStr m)])\<rparr>"

text \<open>
  The question of the request where \<open>isFollowUp && message\<close> holds (\<open>isFollowUp\<close> is
  \<open>false\<close> where the body has none), and \<open>None\<close> where it does not.
\<close>

definition follow_up_question :: "json option \<Rightarrow> json option \<Rightarrow> json option" where
  "follow_up_question isFollowUp message =
     (if truthy (case isFollowUp of None \<Rightarrow> JBool False | Some v \<Rightarrow> v) \<and> truthy_opt message
      then message else None)"

text \<open>The two branches of \<open>/api/chat\<close>, each from the result of its gateway call.\<close>

definition follow_up_response :: "text_result \<Rightarrow> response" where
  "follow_up_response followUpResult =
     (case followUpResult of
        TextFailed e \<Rightarrow> chat_failed e
      | TextOk text \<Rightarrow>
          \<lparr>status = 200, body = JsonBody (JObj
             [(''success'', JBool True),
              (''response'', JStr text),
              (''isFollowUp'', JBool True)])\<rparr>)"

definition summary_response :: "text_result \<Rightarrow> response" where
  "summary_response summaryResult =
     (case summaryResult of
        TextFailed e \<Rightarrow> chat_failed e
      | TextOk text \<Rightarrow>
          \<lparr>status = 200, body = JsonBody (JObj
             [(''success'', JBool True),
              (''response'', JStr text),
              (''isFollowUp'', JBool False)])\<rparr>)"

text \<open>
  The route \<open>POST /api/chat\<close>, \<open>validateSession\<close> and then the handler, for a request
  whose body is an object: \<open>message\<close> and \<open>isFollowUp\<close> are the fields of the body,
  \<open>None\<close> where the body has none; \<open>chat\<close> is what the one outbound call does. What
  comes before the route is in \<open>chat_request\<close> below.
\<close>

definition api_chat ::
  "(rat \<Rightarrow> string) \<Rightarrow> string option \<Rightarrow> json option \<Rightarrow> json option \<Rightarrow> completion outcome \<Rightarrow>
     nat \<Rightarrow> cache \<Rightarrow> handled" where
  "api_chat numstr header message isFollowUp chat now c =
     (case validateSession header of
        Inl r \<Rightarrow> \<lparr>response = r, store = c, events = []\<rparr>
      | Inr sessionId \<Rightarrow>
          (case getAnalysis sessionId now c of
             (None, c') \<Rightarrow>
               \<lparr>response = \<lparr>status = 404, body = JsonBody (JObj
                    [(''success'', JBool False),
                     (''error'', JStr ''Session not found or expired. Please scan the product again.'')])\<rparr>,
                store = c', events = [CallGetAnalysis sessionId]\<rparr>
           | (Some sessionData, c') \<Rightarrow>
               (case follow_up_question isFollowUp message of
                  Some question \<Rightarrow>
                    \<lparr>response = follow_up_response
                                  (handleFollowUp numstr (analysis sessionData) question chat),
                     store = c',
                     events = [CallGetAnalysis sessionId,
                               CallHandleFollowUp (analysis sessionData) question]\<rparr>
                | None \<Rightarrow>
                    \<lparr>response = summary_response (generateSummary (analysis sessionData) chat),
                     store = c',
                     events = [CallGetAnalysis sessionId,
                               CallGenerateSummary (analysis sessionData)]\<rparr>)))"

text \<open>
  The error handling middleware, the only one of the application: it answers an error
  passed on by anything registered before it with status 500. \<open>development\<close> is
  whether \<open>NODE_ENV\<close> is \<open>development\<close>.
\<close>

definition error_middleware :: "bool \<Rightarrow> string \<Rightarrow> response" where
  "error_middleware development m =
     \<lparr>status = 500, body = JsonBody (JObj
        [(''success'', JBool False),
         (''error'', JStr ''Internal server error''),
         (''details'', JStr (if development then m else ''Something went wrong''))])\<rparr>"

text \<open>
  What the body parsers registered for the whole application (\<open>express.json\<close>,
  \<open>express.urlencoded\<close>) make of the body of a request before any route runs:
  \<^item> \<open>BodyRefused m\<close>: a parser refuses the body (JSON that does not parse, a body
    over the limit, an aborted upload) and passes an error with message \<open>m\<close> on;
  \<^item> \<open>BodyMissing\<close>: \<open>req.body\<close> is \<open>undefined\<close>, no parser having filled it
    (Express 5 leaves it so for a request without a JSON or urlencoded body; Express 4
    always gives an object);
  \<^item> \<open>BodyFields message isFollowUp\<close>: \<open>req.body\<close> is an object or array, with
    these two fields (\<open>None\<close> where it has none).
\<close>

datatype chat_body =
    BodyRefused string
  | BodyMissing
  | BodyFields "json option" "json option"

fun refused :: "chat_body \<Rightarrow> bool" where
  "refused (BodyRefused m) = True"
| "refused _ = False"

text \<open>
  The message of the TypeError that \<open>const { message, isFollowUp = false } = req.body\<close>
  throws when \<open>req.body\<close> is \<open>undefined\<close>.
\<close>

definition destructure_message :: string where
  "destructure_message =
     ''Cannot destructure property '' @ [CHR 0x27] @ ''message'' @ [CHR 0x27] @ '' of ''
       @ [CHR 0x27] @ ''req.body'' @ [CHR 0x27] @ '' as it is undefined.''"

text \<open>
  A request \<open>POST /api/chat\<close> from the body parsers on. An error of a body parser skips
  the route and goes to the error handling middleware. Otherwise \<open>validateSession\<close>
  runs, and then the handler, whose first statement takes the fields out of \<open>req.body\<close>
  inside the \<open>try\<close>, before the store is read.
\<close>

definition chat_request ::
  "bool \<Rightarrow> (rat \<Rightarrow> string) \<Rightarrow> string option \<Rightarrow> chat_body \<Rightarrow> completion outcome \<Rightarrow>
     nat \<Rightarrow> cache \<Rightarrow> handled" where
  "chat_request development numstr header reqbody chat now c =
     (case reqbody of
        BodyRefused m \<Rightarrow>
          \<lparr>response = error_middleware development m, store = c, events = []\<rparr>
      | BodyMissing \<Rightarrow>
          (case validateSession header of
             Inl r \<Rightarrow> \<lparr>response = r, store = c, events = []\<rparr>
           | Inr sessionId \<Rightarrow>
               \<lparr>response = chat_failed destructure_message, store = c, events = []\<rparr>)
      | BodyFields message isFollowUp \<Rightarrow>
          api_chat numstr header message isFollowUp chat now c)"

text \<open>
  \<open>POST /api/tts\<close>. \<open>text\<close> and \<open>voice\<close> are the fields of the body (\<open>voice\<close> is
  \<open>alloy\<close> where the body has none); \<open>speech\<close> is what the outbound request does. The
  handler does not touch the store.
\<close>

definition text_required :: response where
  "text_required = \<lparr>status = 400, body = JsonBody (JObj [(''error'', JStr ''Text is required'')])\<rparr>"

definition api_tts :: "json option \<Rightarrow> json option \<Rightarrow> string outcome \<Rightarrow> response \<times> event list" where
  "api_tts text voice speech =
     (case text of
        None \<Rightarrow> (text_required, [])
      | Some t \<Rightarrow>
          if \<not> truthy t then (text_required, [])
          else
            (case generateSpeech t (case voice of None \<Rightarrow> JStr ''alloy'' | Some v \<Rightarrow> v) speech of
               (evs, Returns audioBuffer) \<Rightarrow>
                 (\<lparr>status = 200, body = AudioBody audioBuffer\<rparr>, evs)
             | (evs, Throws m) \<Rightarrow>
                 (\<lparr>status = 500, body = JsonBody (JObj
                    [(''error'', JStr ''Failed to generate speech''), (''details'', JStr m)])\<rparr>,
                  evs)))"

text \<open>
  The life of the server as far as the store goes: requests to \<open>/api/analyze\<close> and
  \<open>/api/chat\<close> and the periodic sweep (\<open>Tick\<close>), each at its time, one after the other.
\<close>

datatype request =
    Analyze "upload option" "completion outcome" string "completion outcome"
  | Chat "string option" "json option" "json option" "completion outcome"
  | Tick

fun serve ::
  "(string \<Rightarrow> string + json) \<Rightarrow> (rat \<Rightarrow> string) \<Rightarrow> nat \<times> request \<Rightarrow> cache \<Rightarrow> cache" where
  "serve parse numstr (now, Analyze file vision uuid chat) c =
     store (api_analyze parse numstr file vision uuid chat now c)"
| "serve parse numstr (now, Chat header message isFollowUp chat) c =
     store (api_chat numstr header message isFollowUp chat now c)"
| "serve parse numstr (now, Tick) c = cache_sweep now c"

fun serve_all ::
  "(string \<Rightarrow> string + json) \<Rightarrow> (rat \<Rightarrow> string) \<Rightarrow> (nat \<times> request) list \<Rightarrow> cache \<Rightarrow> cache" where
  "serve_all parse numstr [] c = c"
| "serve_all parse numstr (r # rs) c = serve_all parse numstr rs (serve parse numstr r c)"

text \<open>\<open>s.includes(p)\<close>: the string \<open>p\<close> occurs in \<open>s\<close>.\<close>

fun includes_str :: "string \<Rightarrow> string \<Rightarrow> bool" where
  "includes_str [] p = (p = [])"
| "includes_str (x # xs) p = (startsWith (x # xs) p \<or> includes_str xs p)"

text \<open>
  A value has a printed form: no object with a \<open>toString\<close> key of its own is in it
  (see \<open>to_string\<close>).
\<close>

fun printable :: "json \<Rightarrow> bool" where
  "printable (JArr xs) = list_all printable xs"
| "printable (JObj kvs) = (''toString'' \<notin> fst ` set kvs)"
| "printable _ = True"

text \<open>
  \<open>JSON.parse\<close> and the printing of numbers on the texts and numbers of the examples
  below.
\<close>

definition unreadable_reply :: string where
  \<open>unreadable_reply = ''{"error":"Not a food label","isError":true}''\<close>

definition flagged_reply :: string where
  \<open>flagged_reply = ''{"productName":"Choco Bar","error":"blurred","isError":false}''\<close>

definition choco_reply :: string where
  \<open>choco_reply = ''{"productName":"Choco Bar","ingredients":["sugar","cocoa"],"nutritionFacts":{"calories":200}}''\<close>

definition choco :: json where
  "choco = JObj [(''productName'', JStr ''Choco Bar''),
                 (''ingredients'', JArr [JStr ''sugar'', JStr ''cocoa'']),
                 (''nutritionFacts'', JObj [(''calories'', JNum 200)])]"

definition choco_text_reply :: string where
  \<open>choco_text_reply = ''{"productName":"Choco Bar","ingredients":"sugar, cocoa"}''\<close>

definition choco_text :: json where
  "choco_text = JObj [(''productName'', JStr ''Choco Bar''), (''ingredients'', JStr ''sugar, cocoa'')]"

definition example_parse :: "string \<Rightarrow> string + json" where
  "example_parse s =
     (if s = unreadable_reply then
        Inr (JObj [(''error'', JStr ''Not a food label''), (''isError'', JBool True)])
      else if s = flagged_reply then
        Inr (JObj [(''productName'', JStr ''Choco Bar''), (''error'', JStr ''blurred''),
                   (''isError'', JBool False)])
      else if s = choco_reply then Inr choco
      else if s = choco_text_reply then Inr choco_text
      else if s = ''null'' then Inr JNull
      else Inl ''Unexpected token'')"

definition example_numstr :: "rat \<Rightarrow> string" where
  "example_numstr n = (if n = 200 then ''200'' else ''0'')"

definition label_png :: upload where
  "label_png = \<lparr>base64 = ''iVBORw0KGgo='', mimetype = ''image/png''\<rparr>"

section \<open>Properties of the session store\<close>

lemma apply_op_absent:
  "\<not> stores k x \<Longrightarrow> c k = None \<Longrightarrow> apply_op x c k = None"
  by (cases x)
     (auto simp: storeAnalysis_def getAnalysis_def cache_set_def cache_get_def
                 cache_sweep_def split: option.splits)

lemma run_ops_absent:
  "\<forall>x \<in> set xs. \<not> stores k x \<Longrightarrow> c k = None \<Longrightarrow> run_ops xs c k = None"
  by (induction xs arbitrary: c) (simp_all add: apply_op_absent)

lemma apply_op_live:
  assumes "\<not> stores k x" and "c k = Some e" and "op_time x \<le> expires e"
  shows "apply_op x c k = Some e"
  using assms
  by (cases x)
     (auto simp: storeAnalysis_def getAnalysis_def cache_set_def cache_get_def
                 cache_sweep_def split: option.splits)

lemma run_ops_live:
  assumes "\<forall>x \<in> set xs. \<not> stores k x \<and> op_time x \<le> expires e" and "c k = Some e"
  shows "run_ops xs c k = Some e"
  using assms by (induction xs arbitrary: c) (simp_all add: apply_op_live)

lemma apply_op_same_or_gone:
  assumes "\<not> stores k x" and "c k = None \<or> c k = Some e"
  shows "apply_op x c k = None \<or> apply_op x c k = Some e"
  using assms
  by (cases x)
     (auto simp: storeAnalysis_def getAnalysis_def cache_set_def cache_get_def
                 cache_sweep_def split: option.splits)

lemma run_ops_same_or_gone:
  assumes "\<forall>x \<in> set xs. \<not> stores k x" and "c k = None \<or> c k = Some e"
  shows "run_ops xs c k = None \<or> run_ops xs c k = Some e"
  using assms
proof (induction xs arbitrary: c)
  case Nil
  then show ?case by simp
next
  case (Cons x xs)
  have "apply_op x c k = None \<or> apply_op x c k = Some e"
    using Cons.prems by (intro apply_op_same_or_gone) simp_all
  with Cons show ?case by simp
qed

text \<open>
  C1. A payload stored with \<open>storeAnalysis\<close> is returned by a \<open>getAnalysis\<close> with the
  same identifier, as the record \<open>{analysis, timestamp}\<close> that was stored, when the read
  comes before the record has expired (in particular at once, at the time of the store).
\<close>

theorem store_then_get:
  assumes "t \<le> T + ttl_ms"
  shows "fst (getAnalysis sid t (storeAnalysis sid a T c)) = Some \<lparr>analysis = a, timestamp = T\<rparr>"
  using assms by (simp add: getAnalysis_def storeAnalysis_def cache_get_def cache_set_def)

theorem store_then_get_witness:
  "(1000::nat) \<le> 1000 + ttl_ms \<and>
   fst (getAnalysis ''s1'' 1000 (storeAnalysis ''s1'' (JObj [(''productName'', JStr ''Choco Bar'')]) 1000 Map.empty))
     = Some \<lparr>analysis = JObj [(''productName'', JStr ''Choco Bar'')], timestamp = 1000\<rparr>"
  using store_then_get [of 1000 1000 "''s1''" "JObj [(''productName'', JStr ''Choco Bar'')]" Map.empty]
  by simp

text \<open>
  C2. A session created at time \<open>T\<close> and not stored again is returned by every read before
  \<open>T\<close> plus 15 minutes and by no read after it, whatever reads (of this or of other
  sessions), sweeps and stores of other sessions happened in between: a read does not
  move the expiry.
\<close>

theorem fixed_ttl_from_creation:
  assumes "\<forall>x \<in> set ops. \<not> stores sid x \<and> op_time x \<le> t"
  shows "(t < T + 15 * 60 * 1000 \<longrightarrow>
            fst (getAnalysis sid t (run_ops ops (storeAnalysis sid a T c)))
              = Some \<lparr>analysis = a, timestamp = T\<rparr>) \<and>
         (T + 15 * 60 * 1000 < t \<longrightarrow>
            fst (getAnalysis sid t (run_ops ops (storeAnalysis sid a T c))) = None)"
proof -
  let ?e = "\<lparr>val = \<lparr>analysis = a, timestamp = T\<rparr>, expires = T + ttl_ms\<rparr>"
  let ?c = "storeAnalysis sid a T c"
  have ttl: "ttl_ms = 15 * 60 * 1000"
    by (simp add: ttl_ms_def stdTTL_def)
  have start: "?c sid = Some ?e"
    by (simp add: storeAnalysis_def cache_set_def)
  have no_store: "\<forall>x \<in> set ops. \<not> stores sid x"
    using assms by blast
  have before: "fst (getAnalysis sid t (run_ops ops ?c)) = Some \<lparr>analysis = a, timestamp = T\<rparr>"
    if "t < T + 15 * 60 * 1000"
  proof -
    have "\<forall>x \<in> set ops. \<not> stores sid x \<and> op_time x \<le> expires ?e"
      using assms that ttl by auto
    then have "run_ops ops ?c sid = Some ?e"
      using start by (rule run_ops_live)
    then show ?thesis
      using that ttl by (simp add: getAnalysis_def cache_get_def)
  qed
  have after: "fst (getAnalysis sid t (run_ops ops ?c)) = None"
    if "T + 15 * 60 * 1000 < t"
  proof -
    have "run_ops ops ?c sid = None \<or> run_ops ops ?c sid = Some ?e"
      using no_store start by (intro run_ops_same_or_gone) simp_all
    then show ?thesis
      using that ttl by (auto simp: getAnalysis_def cache_get_def)
  qed
  from before after show ?thesis by blast
qed

theorem fixed_ttl_from_creation_witness:
  "fst (getAnalysis ''id-1'' 600000
         (run_ops [Get ''id-1'' 2000, Sweep 300000, Store ''id-2'' JNull 400000, Get ''id-1'' 500000]
            (storeAnalysis ''id-1'' choco 1000 Map.empty)))
     = Some \<lparr>analysis = choco, timestamp = 1000\<rparr> \<and>
   fst (getAnalysis ''id-1'' 901001
         (run_ops [Get ''id-1'' 2000, Sweep 300000, Store ''id-2'' JNull 400000, Get ''id-1'' 500000]
            (storeAnalysis ''id-1'' choco 1000 Map.empty)))
     = None"
  using fixed_ttl_from_creation [of "[Get ''id-1'' 2000, Sweep 300000, Store ''id-2'' JNull 400000, Get ''id-1'' 500000]"
      "''id-1''" 600000 1000 choco Map.empty]
    fixed_ttl_from_creation [of "[Get ''id-1'' 2000, Sweep 300000, Store ''id-2'' JNull 400000, Get ''id-1'' 500000]"
      "''id-1''" 901001 1000 choco Map.empty]
  by simp

text \<open>
  C8. An identifier under which nothing was ever stored resolves to nothing: starting from
  the empty store, after any operations that never store under \<open>sid\<close>, a read of \<open>sid\<close>
  returns no payload.
\<close>

theorem never_stored_not_found:
  assumes "\<forall>x \<in> set ops. \<not> stores sid x"
  shows "fst (getAnalysis sid t (run_ops ops Map.empty)) = None"
proof -
  have "run_ops ops Map.empty sid = None"
    using assms by (rule run_ops_absent) simp
  then show ?thesis
    by (simp add: getAnalysis_def cache_get_def)
qed

theorem never_stored_not_found_witness:
  "fst (getAnalysis ''id-9'' 5000
         (run_ops [Store ''id-1'' choco 1000, Get ''id-9'' 2000, Sweep 3000, Get ''id-1'' 4000]
            Map.empty)) = None"
  using never_stored_not_found [of "[Store ''id-1'' choco 1000, Get ''id-9'' 2000, Sweep 3000, Get ''id-1'' 4000]"
      "''id-9''" 5000]
  by simp

section \<open>Properties of the gateways and the handlers\<close>

lemma startsWith_append: "startsWith (p @ r) p"
  by (simp add: startsWith_def)

lemma includes_str_prefix: "includes_str (p @ r) p"
proof (cases "p @ r")
  case Nil
  then show ?thesis by simp
next
  case (Cons x xs)
  have "startsWith (x # xs) p"
    using startsWith_append [of p r] by (simp only: Cons)
  then show ?thesis by (simp only: Cons includes_str.simps simp_thms)
qed

lemma sequence_defined:
  "\<forall>x \<in> set xs. f x \<noteq> None \<Longrightarrow> \<exists>ys. sequence (map f xs) = Some ys"
proof (induction xs)
  case Nil
  then show ?case by simp
next
  case (Cons x xs)
  from Cons.prems obtain y where y: "f x = Some y" by auto
  from Cons.prems have "\<forall>x \<in> set xs. f x \<noteq> None" by simp
  from Cons.IH [OF this] obtain ys where "sequence (map f xs) = Some ys" ..
  with y show ?case by simp
qed

lemma elements_printed:
  assumes "\<And>x. x \<in> set xs \<Longrightarrow> printable x \<Longrightarrow> \<exists>s. to_string numstr x = Some s"
    and "list_all printable xs"
  shows "\<exists>ys. sequence (map (\<lambda>x. if x = JNull then Some [] else to_string numstr x) xs) = Some ys"
proof (rule sequence_defined, rule ballI)
  fix x assume x: "x \<in> set xs"
  then have "printable x" using assms(2) by (simp add: list_all_iff)
  with assms(1) [OF x] obtain s where "to_string numstr x = Some s" by blast
  then show "(if x = JNull then Some [] else to_string numstr x) \<noteq> None" by simp
qed

lemma to_string_printable: "printable v \<Longrightarrow> \<exists>s. to_string numstr v = Some s"
proof (induction v)
  case (JArr xs)
  have "list_all printable xs" using JArr.prems by simp
  from elements_printed [of xs numstr, OF JArr.IH this] obtain ys where
    "sequence (map (\<lambda>x. if x = JNull then Some [] else to_string numstr x) xs) = Some ys"
    by blast
  then show ?case by simp
next
  case (JObj kvs)
  then show ?case by simp
qed simp_all

lemma join_printable:
  assumes "list_all printable xs"
  shows "\<exists>s. join numstr sep xs = Some s"
proof -
  from elements_printed [of xs numstr, OF to_string_printable assms] obtain ys where
    "sequence (map (\<lambda>x. if x = JNull then Some [] else to_string numstr x) xs) = Some ys" ..
  then show ?thesis by (simp add: join_def)
qed

lemma analyzeImage_ok_iff:
  "analyzeImage parse img mime reply = AnalysisOk a \<longleftrightarrow>
     (\<exists>content. fetch_content img mime reply = Inr content \<and>
        parse (strip_fence content) = Inr a \<and> a \<noteq> JNull \<and>
        \<not> truthy_opt (prop_read a ''isError'') \<and> \<not> truthy_opt (prop_read a ''error''))"
  by (auto simp: analyzeImage_def parse_analysis_def caught_def split: sum.splits)

lemma analyzeImage_flagged:
  assumes "fetch_content img mime reply = Inr content"
    and "parse (strip_fence content) = Inr a" and "a \<noteq> JNull"
    and "truthy_opt (prop_read a ''isError'') \<or> truthy_opt (prop_read a ''error'')"
  shows "analyzeImage parse img mime reply =
           AnalysisFailed (or_else (prop_read a ''error'') (JStr ''Failed to analyze the food label''))
             ''The model could not process the image as a food label''"
  using assms by (simp add: analyzeImage_def parse_analysis_def)

lemma api_analyze_failed:
  assumes "analyzeImage parse (base64 f) (mimetype f) vision = AnalysisFailed e d"
  shows "api_analyze parse numstr (Some f) vision uuid chat now c =
           \<lparr>response = \<lparr>status = 500, body = JsonBody (JObj
              [(''success'', JBool False), (''error'', e), (''details'', JStr d)])\<rparr>,
            store = c, events = [CallAnalyzeImage]\<rparr>"
  using assms by (simp add: api_analyze_def)

lemma api_analyze_ok:
  assumes "analyzeImage parse (base64 f) (mimetype f) vision = AnalysisOk a"
  shows "api_analyze parse numstr (Some f) vision uuid chat now c =
           \<lparr>response = \<lparr>status = 200, body = JsonBody (JObj
              [(''success'', JBool True),
               (''sessionId'', JStr uuid),
               (''summary'', JStr (first_summary numstr a (generateSummary a chat))),
               (''hasAnalysis'', JBool True),
               (''analysis'', a)])\<rparr>,
            store = storeAnalysis uuid a now c,
            events = [CallAnalyzeImage, CallStoreAnalysis uuid a, CallGenerateSummary a]\<rparr>"
  using assms by (simp add: api_analyze_def)

text \<open>
  C3. When \<open>analyzeImage\<close> returns a failure, \<open>/api/analyze\<close> leaves the store as it
  was, never calls \<open>storeAnalysis\<close>, and answers with a body that has no \<open>sessionId\<close>.
\<close>

theorem failed_analysis_no_session:
  assumes "analyzeImage parse (base64 f) (mimetype f) vision = AnalysisFailed e d"
  shows "store (api_analyze parse numstr (Some f) vision uuid chat now c) = c \<and>
         (\<forall>sid a. CallStoreAnalysis sid a
            \<notin> set (events (api_analyze parse numstr (Some f) vision uuid chat now c))) \<and>
         body_field (body (response (api_analyze parse numstr (Some f) vision uuid chat now c)))
           ''sessionId'' = None"
  by (simp add: api_analyze_failed [OF assms])

theorem failed_analysis_no_session_witness:
  "analyzeImage example_parse (base64 label_png) (mimetype label_png) (Throws ''quota exceeded'')
     = AnalysisFailed (JStr ''Failed to analyze image'') ''quota exceeded'' \<and>
   store (api_analyze example_parse example_numstr (Some label_png) (Throws ''quota exceeded'')
            ''id-1'' (Throws ''quota exceeded'') 1000 Map.empty) = Map.empty \<and>
   body_field (body (response (api_analyze example_parse example_numstr (Some label_png)
            (Throws ''quota exceeded'') ''id-1'' (Throws ''quota exceeded'') 1000 Map.empty)))
     ''sessionId'' = None"
proof -
  have failed: "analyzeImage example_parse (base64 label_png) (mimetype label_png)
      (Throws ''quota exceeded'') = AnalysisFailed (JStr ''Failed to analyze image'') ''quota exceeded''"
    by (simp add: analyzeImage_def fetch_content_def caught_def label_png_def startsWith_def)
  from failed_analysis_no_session [OF failed, of example_numstr "''id-1''" "Throws ''quota exceeded''"
      1000 Map.empty] failed
  show ?thesis by simp
qed

text \<open>
  C5 as stated does not hold: when the model reports that the image is not a readable food
  label, \<open>analyzeImage\<close> returns the semantic failure and \<open>/api/analyze\<close> answers it
  with status 500.
\<close>

theorem unreadable_label_status_500:
  "analyzeImage example_parse (base64 label_png) (mimetype label_png)
       (Returns (FirstContent (Some unreadable_reply)))
     = AnalysisFailed (JStr ''Not a food label'')
         ''The model could not process the image as a food label'' \<and>
   status (response (api_analyze example_parse example_numstr (Some label_png)
       (Returns (FirstContent (Some unreadable_reply))) ''id-1''
       (Returns (FirstContent (Some ''A chocolate bar.''))) 1000 Map.empty)) = 500"
  by (simp add: api_analyze_def analyzeImage_def fetch_content_def parse_analysis_def
      label_png_def startsWith_def strip_fence_def fence_def unreadable_reply_def
      example_parse_def)

text \<open>
  C5, amended. When the parsed reply of the model carries the error flag (a truthy
  \<open>isError\<close> or \<open>error\<close>), the response of \<open>/api/analyze\<close> is the structured failure
  \<open>{success: false, error, details}\<close> with status 500, where \<open>error\<close> is the model's
  explanation (a fixed text when it gave none) and \<open>details\<close> is the fixed text of the
  semantic failure; 500 is the status of every failed analysis, upstream failures included.
\<close>

theorem semantic_failure_response:
  assumes "fetch_content (base64 f) (mimetype f) vision = Inr content"
    and "parse (strip_fence content) = Inr a" and "a \<noteq> JNull"
    and "truthy_opt (prop_read a ''isError'') \<or> truthy_opt (prop_read a ''error'')"
  shows "response (api_analyze parse numstr (Some f) vision uuid chat now c) =
           \<lparr>status = 500, body = JsonBody (JObj
              [(''success'', JBool False),
               (''error'', or_else (prop_read a ''error'') (JStr ''Failed to analyze the food label'')),
               (''details'', JStr ''The model could not process the image as a food label'')])\<rparr> \<and>
         (\<forall>f' vision' e d.
             analyzeImage parse (base64 f') (mimetype f') vision' = AnalysisFailed e d \<longrightarrow>
             status (response (api_analyze parse numstr (Some f') vision' uuid chat now c)) = 500)"
  by (simp add: api_analyze_failed [OF analyzeImage_flagged [where parse = parse, OF assms]]
      api_analyze_failed)

theorem semantic_failure_response_witness:
  "response (api_analyze example_parse example_numstr (Some label_png)
       (Returns (FirstContent (Some unreadable_reply))) ''id-1''
       (Returns (FirstContent (Some ''A chocolate bar.''))) 1000 Map.empty) =
     \<lparr>status = 500, body = JsonBody (JObj
        [(''success'', JBool False),
         (''error'', JStr ''Not a food label''),
         (''details'', JStr ''The model could not process the image as a food label'')])\<rparr>"
proof -
  let ?a = "JObj [(''error'', JStr ''Not a food label''), (''isError'', JBool True)]"
  have fetched: "fetch_content (base64 label_png) (mimetype label_png)
      (Returns (FirstContent (Some unreadable_reply))) = Inr unreadable_reply"
    by (simp add: fetch_content_def label_png_def startsWith_def unreadable_reply_def)
  have parsed: "example_parse (strip_fence unreadable_reply) = Inr ?a"
    by (simp add: strip_fence_def startsWith_def fence_def unreadable_reply_def example_parse_def)
  have flagged: "truthy_opt (prop_read ?a ''isError'') \<or> truthy_opt (prop_read ?a ''error'')"
    by simp
  have "?a \<noteq> JNull" by simp
  from semantic_failure_response [where parse = example_parse and numstr = example_numstr
      and uuid = "''id-1''" and chat = "Returns (FirstContent (Some ''A chocolate bar.''))"
      and now = 1000 and c = Map.empty, OF fetched parsed this flagged]
  show ?thesis by simp
qed

lemma serve_unflagged:
  assumes "\<forall>sid e. c sid = Some e \<longrightarrow>
             \<not> truthy_opt (prop_read (analysis (val e)) ''isError'') \<and>
             \<not> truthy_opt (prop_read (analysis (val e)) ''error'')"
  shows "\<forall>sid e. serve parse numstr r c sid = Some e \<longrightarrow>
             \<not> truthy_opt (prop_read (analysis (val e)) ''isError'') \<and>
             \<not> truthy_opt (prop_read (analysis (val e)) ''error'')"
proof (cases r)
  case (Pair now q)
  show ?thesis
  proof (cases q)
    case (Analyze upl vision uuid chat)
    show ?thesis
    proof (cases upl)
      case None
      with assms Pair Analyze show ?thesis by (simp add: api_analyze_def)
    next
      case (Some f)
      show ?thesis
      proof (cases "analyzeImage parse (base64 f) (mimetype f) vision")
        case (AnalysisOk a)
        then have "\<not> truthy_opt (prop_read a ''isError'') \<and> \<not> truthy_opt (prop_read a ''error'')"
          by (auto simp: analyzeImage_ok_iff)
        with assms Pair Analyze Some show ?thesis
          by (simp add: api_analyze_ok [OF AnalysisOk] storeAnalysis_def cache_set_def)
      next
        case (AnalysisFailed e d)
        with assms Pair Analyze Some show ?thesis
          by (simp add: api_analyze_failed [OF AnalysisFailed])
      qed
    qed
  next
    case (Chat header message isFollowUp chat)
    have "store (api_chat numstr header message isFollowUp chat now c) sid = Some e \<Longrightarrow>
          c sid = Some e" for sid e
      by (auto simp: api_chat_def getAnalysis_def cache_get_def
               split: sum.splits option.splits if_splits prod.splits)
    with assms Pair Chat show ?thesis by (metis serve.simps(2))
  next
    case Tick
    have "cache_sweep now c sid = Some e \<Longrightarrow> c sid = Some e" for sid e
      by (auto simp: cache_sweep_def split: option.splits if_splits)
    with assms Pair Tick show ?thesis by (metis serve.simps(3))
  qed
qed

lemma serve_all_unflagged:
  assumes "\<forall>sid e. c sid = Some e \<longrightarrow>
             \<not> truthy_opt (prop_read (analysis (val e)) ''isError'') \<and>
             \<not> truthy_opt (prop_read (analysis (val e)) ''error'')"
  shows "\<forall>sid e. serve_all parse numstr rs c sid = Some e \<longrightarrow>
             \<not> truthy_opt (prop_read (analysis (val e)) ''isError'') \<and>
             \<not> truthy_opt (prop_read (analysis (val e)) ''error'')"
  using assms
proof (induction rs arbitrary: c)
  case Nil
  then show ?case by simp
next
  case (Cons r rs)
  from serve_unflagged [OF Cons.prems] have
    "\<forall>sid e. serve parse numstr r c sid = Some e \<longrightarrow>
       \<not> truthy_opt (prop_read (analysis (val e)) ''isError'') \<and>
       \<not> truthy_opt (prop_read (analysis (val e)) ''error'')" .
  from Cons.IH [OF this] show ?case by simp
qed

text \<open>
  C9. \<open>analyzeImage\<close> returns a success exactly when it gets a reply from the model whose
  text, after the code fence is stripped, parses, and reading \<open>isError\<close> and \<open>error\<close>
  from the parsed value gives two falsy values (reading them from \<open>null\<close> throws, so that
  \<open>null\<close> is no success). So every analysis in the store, whatever requests the server
  has handled since it started with an empty store, has neither flag set. And a parsed value
  with a truthy \<open>error\<close> is the semantic failure carrying that \<open>error\<close>, whatever its
  \<open>isError\<close> is.
\<close>

theorem analysis_success_iff_unflagged:
  "(analyzeImage parse img mime reply = AnalysisOk a \<longleftrightarrow>
      (\<exists>content. fetch_content img mime reply = Inr content \<and>
         parse (strip_fence content) = Inr a \<and> a \<noteq> JNull \<and>
         \<not> truthy_opt (prop_read a ''isError'') \<and> \<not> truthy_opt (prop_read a ''error''))) \<and>
   (\<forall>sid e. serve_all parse numstr rs Map.empty sid = Some e \<longrightarrow>
      \<not> truthy_opt (prop_read (analysis (val e)) ''isError'') \<and>
      \<not> truthy_opt (prop_read (analysis (val e)) ''error'')) \<and>
   (\<forall>content b err.
      fetch_content img mime reply = Inr content \<and>
      parse (strip_fence content) = Inr b \<and> b \<noteq> JNull \<and>
      prop_read b ''error'' = Some err \<and> truthy err \<longrightarrow>
      analyzeImage parse img mime reply =
        AnalysisFailed err ''The model could not process the image as a food label'')"
proof (intro conjI)
  show "analyzeImage parse img mime reply = AnalysisOk a \<longleftrightarrow>
      (\<exists>content. fetch_content img mime reply = Inr content \<and>
         parse (strip_fence content) = Inr a \<and> a \<noteq> JNull \<and>
         \<not> truthy_opt (prop_read a ''isError'') \<and> \<not> truthy_opt (prop_read a ''error''))"
    by (rule analyzeImage_ok_iff)
next
  show "\<forall>sid e. serve_all parse numstr rs Map.empty sid = Some e \<longrightarrow>
      \<not> truthy_opt (prop_read (analysis (val e)) ''isError'') \<and>
      \<not> truthy_opt (prop_read (analysis (val e)) ''error'')"
    by (rule serve_all_unflagged) simp
next
  show "\<forall>content b err.
      fetch_content img mime reply = Inr content \<and>
      parse (strip_fence content) = Inr b \<and> b \<noteq> JNull \<and>
      prop_read b ''error'' = Some err \<and> truthy err \<longrightarrow>
      analyzeImage parse img mime reply =
        AnalysisFailed err ''The model could not process the image as a food label''"
    by (simp add: analyzeImage_def parse_analysis_def)
qed

theorem analysis_success_iff_unflagged_witness:
  "analyzeImage example_parse (base64 label_png) (mimetype label_png)
       (Returns (FirstContent (Some choco_reply))) = AnalysisOk choco \<and>
   serve_all example_parse example_numstr
       [(1000, Analyze (Some label_png) (Returns (FirstContent (Some choco_reply))) ''id-1''
                 (Throws ''timeout''))] Map.empty ''id-1''
     = Some \<lparr>val = \<lparr>analysis = choco, timestamp = 1000\<rparr>, expires = 901000\<rparr> \<and>
   \<not> truthy_opt (prop_read choco ''isError'') \<and> \<not> truthy_opt (prop_read choco ''error'') \<and>
   analyzeImage example_parse (base64 label_png) (mimetype label_png)
       (Returns (FirstContent (Some flagged_reply)))
     = AnalysisFailed (JStr ''blurred'') ''The model could not process the image as a food label''"
proof -
  let ?flagged = "JObj [(''productName'', JStr ''Choco Bar''), (''error'', JStr ''blurred''),
                        (''isError'', JBool False)]"
  let ?rs = "[(1000, Analyze (Some label_png) (Returns (FirstContent (Some choco_reply))) ''id-1''
                 (Throws ''timeout''))]"
  have fetched: "fetch_content (base64 label_png) (mimetype label_png)
      (Returns (FirstContent (Some s))) = Inr s" if "s \<noteq> []" for s
    using that by (simp add: fetch_content_def label_png_def startsWith_def)
  have parsed_choco: "example_parse (strip_fence choco_reply) = Inr choco"
    by (simp add: strip_fence_def startsWith_def fence_def choco_reply_def example_parse_def
        unreadable_reply_def flagged_reply_def)
  have parsed_flagged: "example_parse (strip_fence flagged_reply) = Inr ?flagged"
    by (simp add: strip_fence_def startsWith_def fence_def flagged_reply_def example_parse_def
        unreadable_reply_def)
  have choco_reply: "choco_reply \<noteq> []" and flagged_reply: "flagged_reply \<noteq> []"
    by (simp_all add: choco_reply_def flagged_reply_def)
  have unflagged: "choco \<noteq> JNull \<and> \<not> truthy_opt (prop_read choco ''isError'') \<and>
      \<not> truthy_opt (prop_read choco ''error'')"
    by (simp add: choco_def)
  note main = analysis_success_iff_unflagged [where parse = example_parse
      and numstr = example_numstr and img = "base64 label_png"
      and mime = "mimetype label_png" and rs = ?rs]
  have ok: "analyzeImage example_parse (base64 label_png) (mimetype label_png)
      (Returns (FirstContent (Some choco_reply))) = AnalysisOk choco"
    using main [where reply = "Returns (FirstContent (Some choco_reply))" and a = choco]
      fetched [OF choco_reply] parsed_choco unflagged by blast
  have stored: "serve_all example_parse example_numstr ?rs Map.empty ''id-1''
      = Some \<lparr>val = \<lparr>analysis = choco, timestamp = 1000\<rparr>, expires = 901000\<rparr>"
    by (simp add: api_analyze_ok [OF ok] storeAnalysis_def cache_set_def ttl_ms_def stdTTL_def)
  have failed: "analyzeImage example_parse (base64 label_png) (mimetype label_png)
      (Returns (FirstContent (Some flagged_reply)))
        = AnalysisFailed (JStr ''blurred'') ''The model could not process the image as a food label''"
    using main [where reply = "Returns (FirstContent (Some flagged_reply))" and a = choco]
      fetched [OF flagged_reply] parsed_flagged by simp
  from ok stored unflagged failed show ?thesis by simp
qed

text \<open>
  C4 as stated does not hold: with an analysis whose \<open>ingredients\<close> is a string,
  building the fallback summary throws (a string has no \<open>join\<close>), the \<open>catch\<close> sets the
  fixed sentence, and the summary does not contain the product name.
\<close>

theorem fallback_without_product_name:
  "analyzeImage example_parse (base64 label_png) (mimetype label_png)
       (Returns (FirstContent (Some choco_text_reply))) = AnalysisOk choco_text \<and>
   generateSummary choco_text (Throws ''timeout'') = TextFailed ''Failed to generate summary'' \<and>
   prop_read choco_text ''productName'' = Some (JStr ''Choco Bar'') \<and>
   body_field (body (response (api_analyze example_parse example_numstr (Some label_png)
       (Returns (FirstContent (Some choco_text_reply))) ''id-1'' (Throws ''timeout'') 1000 Map.empty)))
     ''summary'' = Some (JStr ''Analysis complete. Ask me anything about this product.'') \<and>
   \<not> includes_str ''Analysis complete. Ask me anything about this product.'' ''Choco Bar''"
proof -
  have ok: "analyzeImage example_parse (base64 label_png) (mimetype label_png)
      (Returns (FirstContent (Some choco_text_reply))) = AnalysisOk choco_text"
    by (simp add: analyzeImage_def fetch_content_def parse_analysis_def label_png_def
        startsWith_def strip_fence_def fence_def choco_text_reply_def choco_text_def
        example_parse_def unreadable_reply_def flagged_reply_def choco_reply_def)
  have summary: "first_summary example_numstr choco_text (generateSummary choco_text (Throws ''timeout''))
      = ''Analysis complete. Ask me anything about this product.''"
    by (simp add: first_summary_def fallback_summary_def ingredients_text_def choco_text_def)
  have absent: "\<not> includes_str ''Analysis complete. Ask me anything about this product.'' ''Choco Bar''"
    by (simp add: startsWith_def)
  show ?thesis
    using ok summary absent by (simp add: api_analyze_ok [OF ok]) (simp add: choco_text_def)
qed

lemma first_summary_failed_nonempty: "first_summary numstr a (TextFailed e) \<noteq> []"
  by (auto simp: first_summary_def fallback_summary_def split: option.splits if_splits)

lemma first_summary_failed_product:
  assumes name: "prop_read a ''productName'' = Some (JStr p)" "p \<noteq> []"
    and ingredients: "prop_read a ''ingredients'' = None \<or> prop_read a ''ingredients'' = Some JNull \<or>
       (\<exists>xs. prop_read a ''ingredients'' = Some (JArr xs) \<and> list_all printable xs)"
    and calories: "\<forall>cal. calories_of a = Some cal \<and> truthy cal \<longrightarrow> printable cal"
    and "a \<noteq> JNull"
  shows "\<exists>r. first_summary numstr a (TextFailed e) = p @ '' contains '' @ r"
proof -
  obtain ing where ing: "ingredients_text numstr a = Some ing"
    using ingredients join_printable [of _ numstr "'', ''"]
    by (fastforce simp: ingredients_text_def)
  have product: "to_string numstr (or_else (prop_read a ''productName'') (JStr ''This product'')) = Some p"
    using name by simp
  show ?thesis
  proof (cases "calories_of a")
    case None
    with ing product \<open>a \<noteq> JNull\<close> show ?thesis
      by (simp add: first_summary_def fallback_summary_def)
  next
    case (Some cal)
    show ?thesis
    proof (cases "truthy cal")
      case True
      with calories Some have "printable cal" by blast
      from to_string_printable [OF this] obtain s where "to_string numstr cal = Some s" ..
      with ing product \<open>a \<noteq> JNull\<close> Some True show ?thesis
        by (simp add: first_summary_def fallback_summary_def)
    next
      case False
      with ing product \<open>a \<noteq> JNull\<close> Some show ?thesis
        by (simp add: first_summary_def fallback_summary_def)
    qed
  qed
qed

text \<open>
  C4, amended. When \<open>analyzeImage\<close> succeeds and \<open>generateSummary\<close> fails, the response
  of \<open>/api/analyze\<close> has status 200 and \<open>success: true\<close>, the \<open>sessionId\<close> under which
  the analysis is now stored, and a non-empty \<open>summary\<close>. The summary contains the
  \<open>productName\<close> whenever that is a non-empty string, \<open>ingredients\<close> is missing, \<open>null\<close>
  or an array, and every value that is printed (the elements of \<open>ingredients\<close>, a truthy
  \<open>calories\<close>) has a printed form.
\<close>

theorem summary_failure_fallback:
  assumes "analyzeImage parse (base64 f) (mimetype f) vision = AnalysisOk a"
    and "generateSummary a chat = TextFailed e"
  shows "\<exists>s. response (api_analyze parse numstr (Some f) vision uuid chat now c) =
               \<lparr>status = 200, body = JsonBody (JObj
                  [(''success'', JBool True),
                   (''sessionId'', JStr uuid),
                   (''summary'', JStr s),
                   (''hasAnalysis'', JBool True),
                   (''analysis'', a)])\<rparr> \<and>
             fst (getAnalysis uuid now (store (api_analyze parse numstr (Some f) vision uuid chat now c)))
               = Some \<lparr>analysis = a, timestamp = now\<rparr> \<and>
             s \<noteq> [] \<and>
             (\<forall>p. prop_read a ''productName'' = Some (JStr p) \<and> p \<noteq> [] \<and>
                  (prop_read a ''ingredients'' = None \<or> prop_read a ''ingredients'' = Some JNull \<or>
                   (\<exists>xs. prop_read a ''ingredients'' = Some (JArr xs) \<and> list_all printable xs)) \<and>
                  (\<forall>cal. calories_of a = Some cal \<and> truthy cal \<longrightarrow> printable cal)
                \<longrightarrow> includes_str s p)"
proof -
  let ?s = "first_summary numstr a (TextFailed e)"
  have not_null: "a \<noteq> JNull"
    using assms(1) by (auto simp: analyzeImage_ok_iff)
  have "includes_str ?s p"
    if "prop_read a ''productName'' = Some (JStr p)" "p \<noteq> []"
       "prop_read a ''ingredients'' = None \<or> prop_read a ''ingredients'' = Some JNull \<or>
          (\<exists>xs. prop_read a ''ingredients'' = Some (JArr xs) \<and> list_all printable xs)"
       "\<forall>cal. calories_of a = Some cal \<and> truthy cal \<longrightarrow> printable cal" for p
  proof -
    from first_summary_failed_product [OF that not_null] obtain r where
      "?s = p @ '' contains '' @ r" by blast
    then show ?thesis by (simp only: includes_str_prefix)
  qed
  moreover have "?s \<noteq> []" by (rule first_summary_failed_nonempty)
  moreover have "fst (getAnalysis uuid now (storeAnalysis uuid a now c))
      = Some \<lparr>analysis = a, timestamp = now\<rparr>"
    by (simp add: getAnalysis_def storeAnalysis_def cache_get_def cache_set_def)
  ultimately show ?thesis
    by (intro exI [of _ ?s]) (simp add: api_analyze_ok [OF assms(1)] assms(2))
qed

theorem summary_failure_fallback_witness:
  "\<exists>s. response (api_analyze example_parse example_numstr (Some label_png)
            (Returns (FirstContent (Some choco_reply))) ''id-1'' (Throws ''timeout'') 1000 Map.empty) =
         \<lparr>status = 200, body = JsonBody (JObj
            [(''success'', JBool True),
             (''sessionId'', JStr ''id-1''),
             (''summary'', JStr s),
             (''hasAnalysis'', JBool True),
             (''analysis'', choco)])\<rparr> \<and>
       s \<noteq> [] \<and> includes_str s ''Choco Bar''"
proof -
  have ok: "analyzeImage example_parse (base64 label_png) (mimetype label_png)
      (Returns (FirstContent (Some choco_reply))) = AnalysisOk choco"
    by (simp add: analyzeImage_def fetch_content_def parse_analysis_def label_png_def
        startsWith_def strip_fence_def fence_def choco_reply_def choco_def
        example_parse_def unreadable_reply_def flagged_reply_def)
  have failed: "generateSummary choco (Throws ''timeout'') = TextFailed ''Failed to generate summary''"
    by simp
  have shape: "prop_read choco ''productName'' = Some (JStr ''Choco Bar'') \<and> ''Choco Bar'' \<noteq> [] \<and>
      (prop_read choco ''ingredients'' = None \<or> prop_read choco ''ingredients'' = Some JNull \<or>
       (\<exists>xs. prop_read choco ''ingredients'' = Some (JArr xs) \<and> list_all printable xs)) \<and>
      (\<forall>cal. calories_of choco = Some cal \<and> truthy cal \<longrightarrow> printable cal)"
    by (simp add: choco_def calories_of_def)
  from summary_failure_fallback [OF ok failed, of example_numstr "''id-1''" 1000 Map.empty]
  obtain s where s: "response (api_analyze example_parse example_numstr (Some label_png)
            (Returns (FirstContent (Some choco_reply))) ''id-1'' (Throws ''timeout'') 1000 Map.empty) =
         \<lparr>status = 200, body = JsonBody (JObj
            [(''success'', JBool True),
             (''sessionId'', JStr ''id-1''),
             (''summary'', JStr s),
             (''hasAnalysis'', JBool True),
             (''analysis'', choco)])\<rparr>" "s \<noteq> []"
    and "\<forall>p. prop_read choco ''productName'' = Some (JStr p) \<and> p \<noteq> [] \<and>
                  (prop_read choco ''ingredients'' = None \<or> prop_read choco ''ingredients'' = Some JNull \<or>
                   (\<exists>xs. prop_read choco ''ingredients'' = Some (JArr xs) \<and> list_all printable xs)) \<and>
                  (\<forall>cal. calories_of choco = Some cal \<and> truthy cal \<longrightarrow> printable cal)
                \<longrightarrow> includes_str s p"
    by blast
  with shape have "includes_str s ''Choco Bar''" by blast
  with s show ?thesis by blast
qed

lemma api_tts_string_voice:
  assumes "truthy t"
  shows "snd (api_tts (Some t) (Some (JStr v)) speech) = [SpeechCreate (toLowerCase v) t]"
  using assms by (cases speech) (simp_all add: api_tts_def generateSpeech_def)

lemma generateSpeech_aiService_rejects:
  assumes "voice \<notin> JStr ` set validVoices"
  shows "generateSpeech_aiService text voice reply = ([], invalid_voice)"
  using assms by (cases voice) (auto simp: generateSpeech_aiService_def)

text \<open>
  C6 is not what the server does. \<open>/api/tts\<close> calls \<open>generateSpeech\<close> of ttsService,
  which has no check of the voice: the voice \<open>invalid\<close> goes out in the speech request
  and the audio comes back with status 200, and the voice \<open>ALLOY\<close>, which is not in the
  list either, goes out as \<open>alloy\<close>. The \<open>generateSpeech\<close> of aiService, which has
  the check, makes no request for either voice.
\<close>

theorem tts_invalid_voice_sent:
  "''invalid'' \<notin> set validVoices \<and>
   api_tts (Some (JStr ''hello'')) (Some (JStr ''invalid'')) (Returns ''mp3 bytes'')
     = (\<lparr>status = 200, body = AudioBody ''mp3 bytes''\<rparr>,
        [SpeechCreate ''invalid'' (JStr ''hello'')]) \<and>
   ''ALLOY'' \<notin> set validVoices \<and>
   api_tts (Some (JStr ''hello'')) (Some (JStr ''ALLOY'')) (Returns ''mp3 bytes'')
     = (\<lparr>status = 200, body = AudioBody ''mp3 bytes''\<rparr>,
        [SpeechCreate ''alloy'' (JStr ''hello'')]) \<and>
   fst (generateSpeech_aiService (JStr ''hello'') (JStr ''invalid'') (Returns ''mp3 bytes'')) = [] \<and>
   fst (generateSpeech_aiService (JStr ''hello'') (JStr ''ALLOY'') (Returns ''mp3 bytes'')) = []"
proof -
  have lower: "toLowerCase ''invalid'' = ''invalid''" "toLowerCase ''ALLOY'' = ''alloy''"
    by code_simp+
  show ?thesis
    by (simp add: api_tts_def generateSpeech_def generateSpeech_aiService_def validVoices_def
        lower)
qed

text \<open>
  C7 as stated does not hold for a header that is there with an empty value: the body is
  accepted, the identifier does not resolve in the store, and the response is the 400 of
  \<open>validateSession\<close>, not a 404.
\<close>

theorem empty_session_header_400:
  "fst (getAnalysis [] 1000 Map.empty) = None \<and>
   status (response (chat_request False example_numstr (Some [])
      (BodyFields (Some (JStr ''Is this vegan?'')) None)
      (Returns (FirstContent (Some ''No.''))) 1000 Map.empty)) = 400"
  by (simp add: chat_request_def api_chat_def validateSession_def getAnalysis_def cache_get_def)

text \<open>
  C7, amended. A request to \<open>/api/chat\<close> whose body the body parsers do not refuse and
  that comes without the \<open>X-Session-ID\<close> header, or with an empty one, gets the 400
  validation error with \<open>success: false\<close>; the store is not read and no gateway is
  called. A request whose body is an object and whose header is non-empty with an
  identifier that does not resolve in the store gets the 404 session failure, after the
  one lookup and without a gateway call. A request whose body a parser refuses gets the
  500 of the error handling middleware, whatever its header; the store is not read and no
  gateway is called.
\<close>

theorem chat_session_validation:
  "(\<not> refused reqbody \<and> (header = None \<or> header = Some []) \<longrightarrow>
      chat_request development numstr header reqbody chat now c =
        \<lparr>response = \<lparr>status = 400, body = JsonBody (JObj
           [(''success'', JBool False),
            (''error'', JStr ''Session ID is required in X-Session-ID header'')])\<rparr>,
         store = c, events = []\<rparr>) \<and>
   (reqbody = BodyFields message isFollowUp \<and>
    header = Some sid \<and> sid \<noteq> [] \<and> fst (getAnalysis sid now c) = None \<longrightarrow>
      response (chat_request development numstr header reqbody chat now c) =
        \<lparr>status = 404, body = JsonBody (JObj
           [(''success'', JBool False),
            (''error'', JStr ''Session not found or expired. Please scan the product again.'')])\<rparr> \<and>
      events (chat_request development numstr header reqbody chat now c) = [CallGetAnalysis sid]) \<and>
   (reqbody = BodyRefused m \<longrightarrow>
      chat_request development numstr header reqbody chat now c =
        \<lparr>response = \<lparr>status = 500, body = JsonBody (JObj
           [(''success'', JBool False),
            (''error'', JStr ''Internal server error''),
            (''details'', JStr (if development then m else ''Something went wrong''))])\<rparr>,
         store = c, events = []\<rparr>)"
proof (intro conjI impI)
  assume "\<not> refused reqbody \<and> (header = None \<or> header = Some [])"
  then show "chat_request development numstr header reqbody chat now c =
        \<lparr>response = \<lparr>status = 400, body = JsonBody (JObj
           [(''success'', JBool False),
            (''error'', JStr ''Session ID is required in X-Session-ID header'')])\<rparr>,
         store = c, events = []\<rparr>"
    by (cases reqbody) (auto simp: chat_request_def api_chat_def validateSession_def)
next
  assume a: "reqbody = BodyFields message isFollowUp \<and>
    header = Some sid \<and> sid \<noteq> [] \<and> fst (getAnalysis sid now c) = None"
  then obtain c' where "getAnalysis sid now c = (None, c')"
    by (cases "getAnalysis sid now c") simp
  with a show "response (chat_request development numstr header reqbody chat now c) =
        \<lparr>status = 404, body = JsonBody (JObj
           [(''success'', JBool False),
            (''error'', JStr ''Session not found or expired. Please scan the product again.'')])\<rparr>"
    and "events (chat_request development numstr header reqbody chat now c) = [CallGetAnalysis sid]"
    by (simp_all add: chat_request_def api_chat_def validateSession_def)
next
  assume "reqbody = BodyRefused m"
  then show "chat_request development numstr header reqbody chat now c =
        \<lparr>response = \<lparr>status = 500, body = JsonBody (JObj
           [(''success'', JBool False),
            (''error'', JStr ''Internal server error''),
            (''details'', JStr (if development then m else ''Something went wrong''))])\<rparr>,
         store = c, events = []\<rparr>"
    by (simp add: chat_request_def error_middleware_def)
qed

theorem chat_session_validation_witness:
  "chat_request False example_numstr None
       (BodyFields (Some (JStr ''Is this vegan?'')) (Some (JBool True)))
       (Returns (FirstContent (Some ''No.''))) 1000 (storeAnalysis ''id-1'' choco 1000 Map.empty) =
     \<lparr>response = \<lparr>status = 400, body = JsonBody (JObj
        [(''success'', JBool False),
         (''error'', JStr ''Session ID is required in X-Session-ID header'')])\<rparr>,
      store = storeAnalysis ''id-1'' choco 1000 Map.empty, events = []\<rparr> \<and>
   response (chat_request False example_numstr (Some ''id-2'')
       (BodyFields (Some (JStr ''Is this vegan?'')) (Some (JBool True)))
       (Returns (FirstContent (Some ''No.''))) 1000 (storeAnalysis ''id-1'' choco 1000 Map.empty)) =
     \<lparr>status = 404, body = JsonBody (JObj
        [(''success'', JBool False),
         (''error'', JStr ''Session not found or expired. Please scan the product again.'')])\<rparr> \<and>
   events (chat_request False example_numstr (Some ''id-2'')
       (BodyFields (Some (JStr ''Is this vegan?'')) (Some (JBool True)))
       (Returns (FirstContent (Some ''No.''))) 1000 (storeAnalysis ''id-1'' choco 1000 Map.empty))
     = [CallGetAnalysis ''id-2''] \<and>
   chat_request False example_numstr None (BodyRefused ''Unexpected end of JSON input'')
       (Returns (FirstContent (Some ''No.''))) 1000 (storeAnalysis ''id-1'' choco 1000 Map.empty) =
     \<lparr>response = \<lparr>status = 500, body = JsonBody (JObj
        [(''success'', JBool False),
         (''error'', JStr ''Internal server error''),
         (''details'', JStr ''Something went wrong'')])\<rparr>,
      store = storeAnalysis ''id-1'' choco 1000 Map.empty, events = []\<rparr>"
proof -
  have unknown: "fst (getAnalysis ''id-2'' 1000 (storeAnalysis ''id-1'' choco 1000 Map.empty)) = None"
    by (simp add: getAnalysis_def storeAnalysis_def cache_get_def cache_set_def)
  note main = chat_session_validation [where development = False and numstr = example_numstr
      and chat = "Returns (FirstContent (Some ''No.''))" and now = 1000
      and c = "storeAnalysis ''id-1'' choco 1000 Map.empty"
      and message = "Some (JStr ''Is this vegan?'')" and isFollowUp = "Some (JBool True)"
      and m = "''Unexpected end of JSON input''"]
  from main [where header = None
      and reqbody = "BodyFields (Some (JStr ''Is this vegan?'')) (Some (JBool True))"]
    main [where header = "Some ''id-2''" and sid = "''id-2''"
      and reqbody = "BodyFields (Some (JStr ''Is this vegan?'')) (Some (JBool True))"]
    main [where header = None and reqbody = "BodyRefused ''Unexpected end of JSON input''"]
    unknown
  show ?thesis by simp
qed





end
